theory Spec2Isabelle
  imports Complex_Main "HOL-Library.Sublist"
begin

section \<open>JavaScript values, strings and thrown values\<close>

text \<open>
  Strings are lists of code units; this development keeps the code units below
  \<open>0x100\<close>, so a string is a \<^typ>\<open>string\<close>. \<open>String.prototype.trim\<close> removes white
  space and line terminators from both ends; below \<open>0x100\<close> these are TAB, LF, VT, FF, CR,
  SPACE and NBSP.
\<close>

definition is_ws :: "char \<Rightarrow> bool" where
  "is_ws c = (c \<in> set [CHR 0x09, CHR 0x0A, CHR 0x0B, CHR 0x0C, CHR 0x0D, CHR 0x20, CHR 0xA0])"

definition trim :: "string \<Rightarrow> string" where
  "trim s = rev (dropWhile is_ws (rev (dropWhile is_ws s)))"

text \<open>\<open>Number.prototype.toString\<close> on a non-negative integer: its decimal digits.\<close>

fun toString :: "nat \<Rightarrow> string" where
  "toString n =
     (if n < 10 then [char_of (48 + n)]
      else toString (n div 10) @ [char_of (48 + n mod 10)])"

declare toString.simps [simp del]

text \<open>
  A value as \<open>JSON.parse\<close> produces it, with \<open>undefined\<close> added for the result of a
  lookup that finds nothing. An object lists its own properties, each key once. Of a
  number the code only observes whether it is zero.
\<close>

datatype jsval =
    JUndefined
  | JNull
  | JBool bool
  | JNum rat
  | JStr string
  | JArr "jsval list"
  | JObj "(string \<times> jsval) list"

text \<open>What \<open>throw\<close> carries and a rejected promise holds: an \<open>Error\<close> object with its
  \<open>message\<close>, or any other value.\<close>

datatype thrown = Error string | NonError

text \<open>The wording of the engine's own \<open>TypeError\<close>s is not fixed by the language.\<close>

record runtime =
  nullAccessMessage :: string
  notAFunctionMessage :: string

fun truthy :: "jsval \<Rightarrow> bool" where
  "truthy JUndefined = False"
| "truthy JNull = False"
| "truthy (JBool b) = b"
| "truthy (JNum q) = (q \<noteq> 0)"
| "truthy (JStr s) = (s \<noteq> [])"
| "truthy (JArr xs) = True"
| "truthy (JObj kvs) = True"

definition nullish :: "jsval \<Rightarrow> bool" where
  "nullish v = (v = JUndefined \<or> v = JNull)"

text \<open>
  \<open>v.k\<close> on a value that is neither \<open>null\<close> nor \<open>undefined\<close>, for a name \<open>k\<close> that no
  prototype defines (\<open>candidates\<close>, \<open>content\<close>, \<open>parts\<close>, \<open>text\<close>): only an object can
  have it, as an own property.
\<close>

fun member :: "jsval \<Rightarrow> string \<Rightarrow> jsval" where
  "member (JObj kvs) k = (case map_of kvs k of None \<Rightarrow> JUndefined | Some v \<Rightarrow> v)"
| "member v k = JUndefined"

text \<open>\<open>v[0]\<close> on a value that is neither \<open>null\<close> nor \<open>undefined\<close>.\<close>

fun index0 :: "jsval \<Rightarrow> jsval" where
  "index0 (JArr xs) = (case xs of [] \<Rightarrow> JUndefined | x # _ \<Rightarrow> x)"
| "index0 (JStr s) = (case s of [] \<Rightarrow> JUndefined | c # _ \<Rightarrow> JStr [c])"
| "index0 (JObj kvs) = (case map_of kvs ''0'' of None \<Rightarrow> JUndefined | Some v \<Rightarrow> v)"
| "index0 v = JUndefined"

text \<open>Plain access throws a \<open>TypeError\<close> on \<open>null\<close> and \<open>undefined\<close>; \<open>?.\<close> yields
  \<open>undefined\<close> there.\<close>

definition get_member :: "runtime \<Rightarrow> jsval \<Rightarrow> string \<Rightarrow> thrown + jsval" where
  "get_member rt v k = (if nullish v then Inl (Error (nullAccessMessage rt)) else Inr (member v k))"

definition get_index0 :: "runtime \<Rightarrow> jsval \<Rightarrow> thrown + jsval" where
  "get_index0 rt v = (if nullish v then Inl (Error (nullAccessMessage rt)) else Inr (index0 v))"

definition opt_member :: "jsval \<Rightarrow> string \<Rightarrow> jsval" where
  "opt_member v k = (if nullish v then JUndefined else member v k)"

definition opt_index0 :: "jsval \<Rightarrow> jsval" where
  "opt_index0 v = (if nullish v then JUndefined else index0 v)"

text \<open>Sequencing of computations that may throw.\<close>

definition bind_thrown :: "thrown + 'a \<Rightarrow> ('a \<Rightarrow> thrown + 'b) \<Rightarrow> thrown + 'b" where
  "bind_thrown m f = (case m of Inl e \<Rightarrow> Inl e | Inr x \<Rightarrow> f x)"

section \<open>The transports\<close>

text \<open>
  How a \<open>fetch\<close> settles: rejected (network error), or resolved with a response whose
  \<open>json()\<close> in turn rejects or resolves. \<open>response.ok\<close> is true exactly for a status in
  200..299.
\<close>

datatype json_result = JsonRejected thrown | JsonResolved jsval

record response =
  status :: nat
  statusText :: string
  body :: json_result

definition ok :: "response \<Rightarrow> bool" where
  "ok r = (200 \<le> status r \<and> status r \<le> 299)"

datatype fetch_outcome = FetchRejected thrown | FetchResolved response

section \<open>The chat view (explore.tsx)\<close>

datatype sender = User | Bot

record ChatMessage =
  sender :: sender
  message :: string
  id' :: "string option"
  timestamp :: "nat option"

record ApiRequest =
  req_message :: string
  req_history :: "ChatMessage list"

record ChatBot_state =
  messages :: "ChatMessage list"
  inputText :: string
  isLoading :: bool

text \<open>The three \<open>useState\<close> initial values.\<close>

definition ChatBot_init :: ChatBot_state where
  "ChatBot_init = \<lparr>messages = [], inputText = [], isLoading = False\<rparr>"

definition welcomeMessage :: "nat \<Rightarrow> ChatMessage" where
  "welcomeMessage now =
     \<lparr>sender = Bot,
      message = ''How can I help you today? I can answer finance-related questions. For example, you can ask me about stock prices, company specific news, or historical financial data.'',
      id' = Some ''welcome'',
      timestamp = Some now\<rparr>"

text \<open>The effect with the empty dependency list: it runs once, after the first render.\<close>

definition ChatBot_mount :: "nat \<Rightarrow> ChatBot_state \<Rightarrow> ChatBot_state" where
  "ChatBot_mount now s = s\<lparr>messages := [welcomeMessage now]\<rparr>"

definition ChatBot_mounted :: "nat \<Rightarrow> ChatBot_state" where
  "ChatBot_mounted now = ChatBot_mount now ChatBot_init"

definition userMessage :: "string \<Rightarrow> nat \<Rightarrow> nat \<Rightarrow> ChatMessage" where
  "userMessage inputText0 t1 t2 =
     \<lparr>sender = User, message = trim inputText0, id' = Some (toString t1), timestamp = Some t2\<rparr>"

definition apiRequest :: "ChatMessage \<Rightarrow> ChatMessage list \<Rightarrow> ApiRequest" where
  "apiRequest um msgs =
     \<lparr>req_message = message um,
      req_history = map (\<lambda>m. \<lparr>sender = sender m, message = message m, id' = None, timestamp = None\<rparr>) msgs\<rparr>"

text \<open>
  \<open>sendMessage\<close> up to its \<open>await fetch(...)\<close>. The callback is rebuilt whenever
  \<open>inputText\<close>, \<open>messages\<close> or \<open>isLoading\<close> change, so it reads the current state.
  \<open>t1\<close>, \<open>t2\<close> are the two readings of \<open>Date.now()\<close>. The second component is the
  request handed to the transport, if any.
\<close>

definition sendMessage_begin ::
  "nat \<Rightarrow> nat \<Rightarrow> ChatBot_state \<Rightarrow> ChatBot_state \<times> ApiRequest option" where
  "sendMessage_begin t1 t2 s =
     (if trim (inputText s) = [] \<or> isLoading s then (s, None)
      else
        let um = userMessage (inputText s) t1 t2;
            s1 = s\<lparr>messages := messages s @ [um]\<rparr>;
            s2 = s1\<lparr>inputText := []\<rparr>;
            s3 = s2\<lparr>isLoading := True\<rparr>
        in (s3, Some (apiRequest um (messages s))))"

text \<open>\<open>data.candidates?.[0]?.content?.parts?.[0]?.text\<close>\<close>

definition optional_text :: "runtime \<Rightarrow> jsval \<Rightarrow> thrown + jsval" where
  "optional_text rt data =
     bind_thrown (get_member rt data ''candidates'') (\<lambda>cands.
       Inr (opt_member (opt_index0 (opt_member (opt_member (opt_index0 cands) ''content'') ''parts'')) ''text''))"

text \<open>\<open>data.candidates[0].content.parts[0].text.trim()\<close>\<close>

definition call_trim :: "runtime \<Rightarrow> jsval \<Rightarrow> thrown + string" where
  "call_trim rt v =
     (if nullish v then Inl (Error (nullAccessMessage rt))
      else case v of JStr s \<Rightarrow> Inr (trim s) | _ \<Rightarrow> Inl (Error (notAFunctionMessage rt)))"

definition strict_text_trim :: "runtime \<Rightarrow> jsval \<Rightarrow> thrown + string" where
  "strict_text_trim rt data =
     bind_thrown (get_member rt data ''candidates'') (\<lambda>cands.
     bind_thrown (get_index0 rt cands) (\<lambda>cand.
     bind_thrown (get_member rt cand ''content'') (\<lambda>content.
     bind_thrown (get_member rt content ''parts'') (\<lambda>parts.
     bind_thrown (get_index0 rt parts) (\<lambda>part.
     bind_thrown (get_member rt part ''text'') (\<lambda>text.
     call_trim rt text))))))"

text \<open>The \<open>try\<close> block after the \<open>fetch\<close> has settled; \<open>t3\<close>, \<open>t4\<close> are the two
  readings of \<open>Date.now()\<close>.\<close>

definition sendMessage_try :: "runtime \<Rightarrow> nat \<Rightarrow> nat \<Rightarrow> fetch_outcome \<Rightarrow> thrown + ChatMessage" where
  "sendMessage_try rt t3 t4 out =
     (case out of
        FetchRejected e \<Rightarrow> Inl e
      | FetchResolved r \<Rightarrow>
          if \<not> ok r then Inl (Error (''HTTP error! status: '' @ toString (status r)))
          else (case body r of
                  JsonRejected e \<Rightarrow> Inl e
                | JsonResolved data \<Rightarrow>
                    bind_thrown (optional_text rt data) (\<lambda>t.
                      if \<not> truthy t then Inl (Error ''Invalid response format from server'')
                      else bind_thrown (strict_text_trim rt data) (\<lambda>txt.
                        Inr \<lparr>sender = Bot, message = txt,
                             id' = Some (toString (t3 + 1)), timestamp = Some t4\<rparr>))))"

definition errorMessage :: "thrown \<Rightarrow> nat \<Rightarrow> nat \<Rightarrow> ChatMessage" where
  "errorMessage err t3 t4 =
     \<lparr>sender = Bot,
      message = ''Sorry, I encountered an error: ''
                @ (case err of Error m \<Rightarrow> m | NonError \<Rightarrow> ''Unknown error'')
                @ ''. Please try again.'',
      id' = Some (toString (t3 + 1)),
      timestamp = Some t4\<rparr>"

text \<open>
  The rest of \<open>sendMessage\<close>: \<open>try\<close>, \<open>catch\<close>, \<open>finally\<close>. \<open>Inl\<close> would be a rejection
  of the promise \<open>sendMessage\<close> returns.
\<close>

definition sendMessage_settle ::
  "runtime \<Rightarrow> nat \<Rightarrow> nat \<Rightarrow> fetch_outcome \<Rightarrow> ChatBot_state \<Rightarrow> thrown + ChatBot_state" where
  "sendMessage_settle rt t3 t4 out s =
     (let s1 = (case sendMessage_try rt t3 t4 out of
                  Inr botMessage \<Rightarrow> s\<lparr>messages := messages s @ [botMessage]\<rparr>
                | Inl err \<Rightarrow> s\<lparr>messages := messages s @ [errorMessage err t3 t4]\<rparr>)
      in Inr (s1\<lparr>isLoading := False\<rparr>))"

text \<open>One whole call of \<open>sendMessage\<close>, the transport answering \<open>transport req\<close>: the final
  state and the requests issued.\<close>

definition sendMessage ::
  "runtime \<Rightarrow> nat \<Rightarrow> nat \<Rightarrow> nat \<Rightarrow> nat \<Rightarrow> (ApiRequest \<Rightarrow> fetch_outcome) \<Rightarrow> ChatBot_state
   \<Rightarrow> thrown + (ChatBot_state \<times> ApiRequest list)" where
  "sendMessage rt t1 t2 t3 t4 transport s =
     (case sendMessage_begin t1 t2 s of
        (s', None) \<Rightarrow> Inr (s', [])
      | (s', Some req) \<Rightarrow>
          bind_thrown (sendMessage_settle rt t3 t4 (transport req) s') (\<lambda>s''. Inr (s'', [req])))"

text \<open>
  The view as a transition system: the text field changes, \<open>sendMessage\<close> is invoked, a
  pending \<open>fetch\<close> settles. \<open>pending\<close> counts the calls of \<open>sendMessage\<close> suspended at
  their \<open>await\<close>, \<open>sent\<close> lists the requests issued so far.
\<close>

record chat_world =
  chat :: ChatBot_state
  pending :: nat
  sent :: "ApiRequest list"

datatype chat_event =
    ChangeText string
  | Press nat nat
  | Settle fetch_outcome nat nat

definition chat_start :: "nat \<Rightarrow> chat_world" where
  "chat_start now = \<lparr>chat = ChatBot_mounted now, pending = 0, sent = []\<rparr>"

fun chat_step :: "runtime \<Rightarrow> chat_world \<Rightarrow> chat_event \<Rightarrow> chat_world" where
  "chat_step rt w (ChangeText t) = w\<lparr>chat := (chat w)\<lparr>inputText := t\<rparr>\<rparr>"
| "chat_step rt w (Press t1 t2) =
     (case sendMessage_begin t1 t2 (chat w) of
        (s', None) \<Rightarrow> w\<lparr>chat := s'\<rparr>
      | (s', Some req) \<Rightarrow> w\<lparr>chat := s', pending := Suc (pending w), sent := sent w @ [req]\<rparr>)"
| "chat_step rt w (Settle out t3 t4) =
     (if pending w = 0 then w
      else case sendMessage_settle rt t3 t4 out (chat w) of
             Inr s' \<Rightarrow> w\<lparr>chat := s', pending := pending w - 1\<rparr>
           | Inl e \<Rightarrow> w\<lparr>pending := pending w - 1\<rparr>)"

definition chat_run :: "runtime \<Rightarrow> chat_world \<Rightarrow> chat_event list \<Rightarrow> chat_world" where
  "chat_run rt w es = foldl (chat_step rt) w es"

section \<open>The company view (index.tsx)\<close>

datatype Company = AAPL | GOOG | MSFT | AMZN | META | TSLA | NFLX | ADBE | INTC | DELL

definition COMPANIES :: "Company list" where
  "COMPANIES = [AAPL, GOOG, MSFT, AMZN, META, TSLA, NFLX, ADBE, INTC, DELL]"

text \<open>The string a \<open>Company\<close> is at run time.\<close>

fun symbol :: "Company \<Rightarrow> string" where
  "symbol AAPL = ''AAPL''"
| "symbol GOOG = ''GOOG''"
| "symbol MSFT = ''MSFT''"
| "symbol AMZN = ''AMZN''"
| "symbol META = ''META''"
| "symbol TSLA = ''TSLA''"
| "symbol NFLX = ''NFLX''"
| "symbol ADBE = ''ADBE''"
| "symbol INTC = ''INTC''"
| "symbol DELL = ''DELL''"

definition API_BASE_URL :: string where
  "API_BASE_URL = ''https://hcibackend.onrender.com''"

text \<open>
  \<open>companyDetails\<close> holds whatever \<open>response.json()\<close> produced (the code does not
  validate it), \<open>JNull\<close> being the initial \<open>null\<close>; \<open>None\<close> is \<open>null\<close> in the two
  other nullable fields.
\<close>

record App_state =
  selectedCompany :: Company
  companyDetails :: jsval
  companyImage :: "string option"
  isDropdownVisible :: bool
  isLoading_app :: bool
  error :: "string option"

text \<open>The six \<open>useState\<close> initial values; \<open>COMPANIES[0]\<close> exists.\<close>

definition App_init :: App_state where
  "App_init =
     \<lparr>selectedCompany = (case COMPANIES of c # _ \<Rightarrow> c),
      companyDetails = JNull,
      companyImage = None,
      isDropdownVisible = False,
      isLoading_app = True,
      error = None\<rparr>"

text \<open>What the view hands to its two transports.\<close>

datatype request =
    Fetch string
  | DownloadAsync string string

datatype download_outcome = DownloadRejected thrown | DownloadResolved string

text \<open>
  One call of \<open>loadCompanyData\<close>: the company its closures captured, whether each of the
  two promises given to \<open>Promise.all\<close> is still pending, and whether \<open>Promise.all\<close>
  has settled (it rejects at the first rejection and fulfils when both have fulfilled).
\<close>

record load =
  target :: Company
  details_pending :: bool
  image_pending :: bool
  joined :: bool

record app_world =
  app :: App_state
  loads :: "load list"
  issued :: "request list"
  alerts :: "(string \<times> string) list"

text \<open>\<open>FileSystem.cacheDirectory\<close> is a string or \<open>null\<close>; in a template literal \<open>null\<close>
  reads \<open>null\<close>.\<close>

definition template :: "string option \<Rightarrow> string" where
  "template x = (case x of None \<Rightarrow> ''null'' | Some s \<Rightarrow> s)"

text \<open>
  \<open>loadCompanyData\<close> up to \<open>await Promise.all\<close>: the two state updates, then
  \<open>fetchCompanyDetails\<close> and \<open>fetchCompanyImage\<close> each up to their first \<open>await\<close>.
\<close>

definition loadCompanyData_begin :: "string option \<Rightarrow> app_world \<Rightarrow> app_world" where
  "loadCompanyData_begin cacheDirectory w =
     (let c = selectedCompany (app w);
          s1 = (app w)\<lparr>isLoading_app := True\<rparr>;
          s2 = s1\<lparr>error := None\<rparr>;
          imageUrl = API_BASE_URL @ ''/stockGraph/'' @ symbol c;
          fileName = template cacheDirectory @ symbol c @ ''.jpg''
      in w\<lparr>app := s2,
           loads := loads w @ [\<lparr>target = c, details_pending = True, image_pending = True, joined = False\<rparr>],
           issued := issued w @ [Fetch (API_BASE_URL @ ''/stockDetails/'' @ symbol c),
                                 DownloadAsync imageUrl fileName]\<rparr>)"

text \<open>The rest of \<open>fetchCompanyDetails\<close>, once its \<open>fetch\<close> (and \<open>json()\<close>) has settled.\<close>

definition fetchCompanyDetails_settle :: "fetch_outcome \<Rightarrow> App_state \<Rightarrow> thrown + App_state" where
  "fetchCompanyDetails_settle out s =
     (case out of
        FetchRejected e \<Rightarrow> Inl e
      | FetchResolved r \<Rightarrow>
          if \<not> ok r then Inl (Error (''Failed to fetch company details: '' @ statusText r))
          else (case body r of
                  JsonRejected e \<Rightarrow> Inl e
                | JsonResolved data \<Rightarrow> Inr (s\<lparr>companyDetails := data\<rparr>)))"

text \<open>The rest of \<open>fetchCompanyImage\<close>, once \<open>downloadAsync\<close> has settled.\<close>

definition fetchCompanyImage_settle :: "download_outcome \<Rightarrow> App_state \<Rightarrow> thrown + App_state" where
  "fetchCompanyImage_settle out s =
     (case out of
        DownloadRejected e \<Rightarrow> Inl e
      | DownloadResolved uri \<Rightarrow> Inr (s\<lparr>companyImage := Some uri\<rparr>))"

text \<open>The \<open>catch\<close> and the \<open>finally\<close> block of \<open>loadCompanyData\<close>.\<close>

definition loadCompanyData_catch :: "thrown \<Rightarrow> app_world \<Rightarrow> app_world" where
  "loadCompanyData_catch err w =
     (let errorMessage = (case err of Error m \<Rightarrow> m | NonError \<Rightarrow> ''An error occurred'')
      in w\<lparr>app := (app w)\<lparr>error := Some errorMessage\<rparr>,
           alerts := alerts w @ [(''Error'', errorMessage)]\<rparr>)"

definition loadCompanyData_finally :: "app_world \<Rightarrow> app_world" where
  "loadCompanyData_finally w = w\<lparr>app := (app w)\<lparr>isLoading_app := False\<rparr>\<rparr>"

text \<open>
  What \<open>await Promise.all\<close> makes of one of its two promises settling, in load \<open>i\<close>:
  the first rejection runs \<open>catch\<close> and \<open>finally\<close>, the second fulfilment runs
  \<open>finally\<close>, anything after \<open>Promise.all\<close> has settled is dropped.
\<close>

definition mark_joined :: "nat \<Rightarrow> app_world \<Rightarrow> app_world" where
  "mark_joined i w = w\<lparr>loads := (loads w)[i := (loads w ! i)\<lparr>joined := True\<rparr>]\<rparr>"

definition join_rejected :: "nat \<Rightarrow> thrown \<Rightarrow> app_world \<Rightarrow> app_world" where
  "join_rejected i err w =
     (if joined (loads w ! i) then w
      else loadCompanyData_finally (loadCompanyData_catch err (mark_joined i w)))"

definition join_fulfilled :: "nat \<Rightarrow> app_world \<Rightarrow> app_world" where
  "join_fulfilled i w =
     (if joined (loads w ! i) \<or> details_pending (loads w ! i) \<or> image_pending (loads w ! i) then w
      else loadCompanyData_finally (mark_joined i w))"

text \<open>
  The view as a transition system. \<open>Select c\<close> is \<open>handleCompanySelect(c)\<close> followed by
  the render it causes: the effect's dependency list is \<open>[selectedCompany]\<close>, so
  \<open>loadCompanyData\<close> runs again exactly when \<open>selectedCompany\<close> differs from the
  previous render's. \<open>DetailsSettled i\<close> and \<open>ImageSettled i\<close> are the two transports
  answering load \<open>i\<close>; an answer nobody waits for is no event.
\<close>

datatype app_event =
    Select Company
  | OpenDropdown
  | CloseDropdown
  | DetailsSettled nat fetch_outcome
  | ImageSettled nat download_outcome

definition handleCompanySelect :: "Company \<Rightarrow> App_state \<Rightarrow> App_state" where
  "handleCompanySelect company s =
     (let s1 = s\<lparr>selectedCompany := company\<rparr> in s1\<lparr>isDropdownVisible := False\<rparr>)"

fun app_step :: "string option \<Rightarrow> app_world \<Rightarrow> app_event \<Rightarrow> app_world" where
  "app_step cd w (Select c) =
     (let w1 = w\<lparr>app := handleCompanySelect c (app w)\<rparr>
      in if selectedCompany (app w1) \<noteq> selectedCompany (app w)
         then loadCompanyData_begin cd w1 else w1)"
| "app_step cd w OpenDropdown = w\<lparr>app := (app w)\<lparr>isDropdownVisible := True\<rparr>\<rparr>"
| "app_step cd w CloseDropdown = w\<lparr>app := (app w)\<lparr>isDropdownVisible := False\<rparr>\<rparr>"
| "app_step cd w (DetailsSettled i out) =
     (if i < length (loads w) \<and> details_pending (loads w ! i) then
        let w1 = w\<lparr>loads := (loads w)[i := (loads w ! i)\<lparr>details_pending := False\<rparr>]\<rparr>
        in case fetchCompanyDetails_settle out (app w1) of
             Inr s' \<Rightarrow> join_fulfilled i (w1\<lparr>app := s'\<rparr>)
           | Inl err \<Rightarrow> join_rejected i err w1
      else w)"
| "app_step cd w (ImageSettled i out) =
     (if i < length (loads w) \<and> image_pending (loads w ! i) then
        let w1 = w\<lparr>loads := (loads w)[i := (loads w ! i)\<lparr>image_pending := False\<rparr>]\<rparr>
        in case fetchCompanyImage_settle out (app w1) of
             Inr s' \<Rightarrow> join_fulfilled i (w1\<lparr>app := s'\<rparr>)
           | Inl err \<Rightarrow> join_rejected i err w1
      else w)"

text \<open>The first render and the effect after it.\<close>

definition App_mount :: "string option \<Rightarrow> app_world" where
  "App_mount cd = loadCompanyData_begin cd \<lparr>app = App_init, loads = [], issued = [], alerts = []\<rparr>"

definition app_run :: "string option \<Rightarrow> app_world \<Rightarrow> app_event list \<Rightarrow> app_world" where
  "app_run cd w es = foldl (app_step cd) w es"

section \<open>Predicates used to state the properties\<close>

text \<open>
  \<open>candidates[0].content.parts[0].text\<close> looked up in a parsed response, a step on a
  value that has no such part giving \<open>undefined\<close>; the response is missing its text when
  the lookup finds nothing.
\<close>

definition lookup_text :: "jsval \<Rightarrow> jsval" where
  "lookup_text data =
     member (index0 (member (member (index0 (member data ''candidates'')) ''content'') ''parts'')) ''text''"

definition text_missing :: "jsval \<Rightarrow> bool" where
  "text_missing data = (lookup_text data = JUndefined)"

text \<open>A network error, a status outside 200..299, a body that is not JSON, or a
  response missing its text.\<close>

fun transport_failure :: "fetch_outcome \<Rightarrow> bool" where
  "transport_failure (FetchRejected e) = True"
| "transport_failure (FetchResolved r) =
     (\<not> ok r \<or> (case body r of JsonRejected e \<Rightarrow> True | JsonResolved data \<Rightarrow> text_missing data))"

section \<open>Example inputs\<close>

definition engine0 :: runtime where
  "engine0 = \<lparr>nullAccessMessage = ''Cannot read property of null'',
              notAFunctionMessage = ''undefined is not a function''\<rparr>"

definition reply_120_50 :: fetch_outcome where
  "reply_120_50 =
     FetchResolved \<lparr>status = 200, statusText = ''OK'',
       body = JsonResolved (JObj [(''candidates'',
                JArr [JObj [(''content'', JObj [(''parts'', JArr [JObj [(''text'', JStr ''120.50'')]])])]])])\<rparr>"

definition reply_no_candidates :: fetch_outcome where
  "reply_no_candidates =
     FetchResolved \<lparr>status = 200, statusText = ''OK'',
                    body = JsonResolved (JObj [(''candidates'', JArr [])])\<rparr>"

definition asking :: ChatBot_state where
  "asking = (ChatBot_mounted 0)\<lparr>inputText := '' What is the AAPL price? ''\<rparr>"

definition first_question :: ChatBot_state where
  "first_question = ChatBot_init\<lparr>inputText := ''What is the AAPL price?''\<rparr>"

definition waiting :: chat_world where
  "waiting = chat_step engine0 (chat_step engine0 (chat_start 0) (ChangeText ''AAPL?'')) (Press 1 2)"

definition blank_input :: chat_world where
  "blank_input = chat_step engine0 (chat_start 0) (ChangeText [CHR 0x20, CHR 0x09, CHR 0x0A])"

definition cache0 :: "string option" where
  "cache0 = Some ''file:///cache/''"

definition details_ok :: "jsval \<Rightarrow> response" where
  "details_ok d = \<lparr>status = 200, statusText = ''OK'', body = JsonResolved d\<rparr>"

definition details_500 :: response where
  "details_500 = \<lparr>status = 500, statusText = ''Internal Server Error'',
                   body = JsonRejected (Error ''JSON Parse error: Unexpected token'')\<rparr>"

definition details_bad_json :: response where
  "details_bad_json = \<lparr>status = 200, statusText = ''OK'',
                        body = JsonRejected (Error ''JSON Parse error: Unexpected token'')\<rparr>"

definition apple :: jsval where
  "apple = JObj [(''industry'', JStr ''Consumer Electronics'')]"

text \<open>TSLA selected while the first load is still out, and its image already downloaded.\<close>

definition tsla_image_done :: app_world where
  "tsla_image_done =
     app_run cache0 (App_mount cache0)
       [Select TSLA, ImageSettled 1 (DownloadResolved ''file:///cache/TSLA.jpg'')]"

text \<open>GOOG selected while the load of AAPL is still out.\<close>

definition goog_selected :: app_world where
  "goog_selected = app_run cache0 (App_mount cache0) [Select GOOG]"

text \<open>The load of AAPL completed.\<close>

definition aapl_loaded :: app_world where
  "aapl_loaded =
     app_run cache0 (App_mount cache0)
       [DetailsSettled 0 (FetchResolved (details_ok apple)),
        ImageSettled 0 (DownloadResolved ''file:///cache/AAPL.jpg'')]"

section \<open>Facts about the chat view\<close>

lemmas chat_example_defs =
  asking_def first_question_def waiting_def blank_input_def chat_start_def ChatBot_mounted_def
  ChatBot_mount_def ChatBot_init_def sendMessage_begin_def trim_def is_ws_def Let_def

lemma opt_member_eq: "opt_member v k = member v k"
  by (cases v) (simp_all add: opt_member_def nullish_def)

lemma opt_index0_eq: "opt_index0 v = index0 v"
  by (cases v) (simp_all add: opt_index0_def nullish_def)

lemma optional_text_cases:
  "optional_text rt data =
     (if nullish data then Inl (Error (nullAccessMessage rt)) else Inr (lookup_text data))"
  by (simp add: optional_text_def bind_thrown_def get_member_def lookup_text_def
      opt_member_eq opt_index0_eq)

lemma sendMessage_try_failure:
  assumes "transport_failure out"
  shows "\<exists>e. sendMessage_try rt t3 t4 out = Inl e"
proof (cases out)
  case (FetchRejected e)
  then show ?thesis by (simp add: sendMessage_try_def)
next
  case (FetchResolved r)
  show ?thesis
  proof (cases "ok r")
    case False
    with FetchResolved show ?thesis by (simp add: sendMessage_try_def)
  next
    case True
    show ?thesis
    proof (cases "body r")
      case (JsonRejected e)
      with True FetchResolved show ?thesis by (simp add: sendMessage_try_def)
    next
      case (JsonResolved data)
      with assms True FetchResolved have "lookup_text data = JUndefined"
        by (simp add: text_missing_def)
      with JsonResolved True FetchResolved show ?thesis
        by (simp add: sendMessage_try_def optional_text_cases bind_thrown_def)
    qed
  qed
qed

lemma errorMessage_shape:
  "sender (errorMessage e t3 t4) = Bot \<and> message (errorMessage e t3 t4) \<noteq> []
   \<and> prefix ''Sorry, I encountered an error: '' (message (errorMessage e t3 t4))
   \<and> suffix ''. Please try again.'' (message (errorMessage e t3 t4))"
  by (simp add: errorMessage_def suffix_def)

lemma sendMessage_try_sender:
  "sendMessage_try rt t3 t4 out = Inr m \<Longrightarrow> sender m = Bot"
  by (auto simp: sendMessage_try_def bind_thrown_def
      split: fetch_outcome.splits if_splits json_result.splits sum.splits)

lemma sendMessage_settle_appends:
  "\<exists>m. sendMessage_settle rt t3 t4 out s = Inr (s\<lparr>messages := messages s @ [m], isLoading := False\<rparr>)
       \<and> sender m = Bot"
  by (cases "sendMessage_try rt t3 t4 out")
     (auto simp: sendMessage_settle_def errorMessage_shape dest: sendMessage_try_sender)

lemma sendMessage_begin_accepts:
  assumes "trim (inputText s) \<noteq> []" and "\<not> isLoading s"
  shows "sendMessage_begin t1 t2 s =
           (s\<lparr>messages := messages s @ [userMessage (inputText s) t1 t2], inputText := [], isLoading := True\<rparr>,
            Some (apiRequest (userMessage (inputText s) t1 t2) (messages s)))"
  using assms by (simp add: sendMessage_begin_def Let_def)

text \<open>A call of \<open>sendMessage\<close> that passes its guard is a \<open>Press\<close> followed by the
  \<open>Settle\<close> of its request.\<close>

lemma sendMessage_as_events:
  assumes "sendMessage_begin t1 t2 (chat w) = (s1, Some req)"
  shows "sendMessage rt t1 t2 t3 t4 transport (chat w)
           = Inr (chat (chat_run rt w [Press t1 t2, Settle (transport req) t3 t4]), [req])"
proof -
  obtain s2 where s2: "sendMessage_settle rt t3 t4 (transport req) s1 = Inr s2"
    using sendMessage_settle_appends by blast
  show ?thesis
    by (simp add: sendMessage_def chat_run_def assms s2 bind_thrown_def)
qed

text \<open>
  The first scenario of the specification: the question asked on an empty history, the
  transport answering \<open>120.50\<close>.
\<close>

lemma scenario_first_submission:
  "map (\<lambda>m. (sender m, message m))
     (messages (fst (projr (sendMessage engine0 1 2 3 4 (\<lambda>req. reply_120_50) first_question))))
   = [(User, ''What is the AAPL price?''), (Bot, ''120.50'')]"
  by (simp add: sendMessage_def sendMessage_begin_def first_question_def ChatBot_init_def trim_def
      is_ws_def userMessage_def apiRequest_def sendMessage_settle_def sendMessage_try_def
      reply_120_50_def ok_def bind_thrown_def optional_text_def get_member_def nullish_def
      opt_member_def opt_index0_def strict_text_trim_def get_index0_def call_trim_def)

lemma chat_step_prefix:
  "prefix (messages (chat w)) (messages (chat (chat_step rt w e)))"
proof (cases e)
  case (ChangeText t)
  then show ?thesis by simp
next
  case (Press t1 t2)
  then show ?thesis
    by (simp add: sendMessage_begin_def Let_def)
next
  case (Settle out t3 t4)
  obtain m where "sendMessage_settle rt t3 t4 out (chat w)
      = Inr ((chat w)\<lparr>messages := messages (chat w) @ [m], isLoading := False\<rparr>)"
    using sendMessage_settle_appends by blast
  with Settle show ?thesis by simp
qed

lemma chat_run_prefix:
  "prefix (messages (chat w)) (messages (chat (chat_run rt w es)))"
proof (induction es arbitrary: w)
  case Nil
  then show ?case by (simp add: chat_run_def)
next
  case (Cons e es)
  have "prefix (messages (chat w)) (messages (chat (chat_step rt w e)))"
    by (rule chat_step_prefix)
  also have "prefix \<dots> (messages (chat (chat_run rt (chat_step rt w e) es)))"
    by (rule Cons.IH)
  finally show ?case by (simp add: chat_run_def)
qed

section \<open>Properties of the chat view\<close>

text \<open>
  Claim C4. When the trimmed input is non-empty and no request is pending, one call of
  \<open>sendMessage\<close>, however the transport settles, appends exactly two messages to the
  history, the user's message (the trimmed input) first and a message of the assistant
  (the reply or the error text) second, issues one request, and ends with \<open>isLoading\<close>
  false.
\<close>

theorem sendMessage_appends_user_then_reply:
  assumes "trim (inputText s) \<noteq> []" and "\<not> isLoading s"
  shows "\<exists>s' u b req. sendMessage rt t1 t2 t3 t4 transport s = Inr (s', [req])
           \<and> messages s' = messages s @ [u, b]
           \<and> sender u = User \<and> message u = trim (inputText s)
           \<and> sender b = Bot
           \<and> isLoading s' = False"
proof -
  let ?um = "userMessage (inputText s) t1 t2"
  let ?s1 = "s\<lparr>messages := messages s @ [?um], inputText := [], isLoading := True\<rparr>"
  let ?req = "apiRequest ?um (messages s)"
  have b: "sendMessage_begin t1 t2 s = (?s1, Some ?req)"
    using assms by (rule sendMessage_begin_accepts)
  obtain m where m: "sendMessage_settle rt t3 t4 (transport ?req) ?s1
      = Inr (?s1\<lparr>messages := messages ?s1 @ [m], isLoading := False\<rparr>)" "sender m = Bot"
    using sendMessage_settle_appends by blast
  have "sendMessage rt t1 t2 t3 t4 transport s
      = Inr (?s1\<lparr>messages := messages ?s1 @ [m], isLoading := False\<rparr>, [?req])"
    by (simp add: sendMessage_def b m bind_thrown_def)
  moreover have "sender ?um = User" "message ?um = trim (inputText s)"
    by (simp_all add: userMessage_def)
  ultimately show ?thesis using m(2) by simp
qed

text \<open>Witness for C4: the question typed after the welcome message, answered \<open>120.50\<close>.\<close>

theorem sendMessage_appends_user_then_reply_witness:
  "trim (inputText asking) \<noteq> []
   \<and> \<not> isLoading asking
   \<and> (\<exists>s' u b req.
         sendMessage engine0 1 2 3 4 (\<lambda>req. reply_120_50) asking = Inr (s', [req])
         \<and> messages s' = messages asking @ [u, b]
         \<and> sender u = User
         \<and> message u = trim (inputText asking)
         \<and> sender b = Bot
         \<and> isLoading s' = False)"
proof -
  have h1: "trim (inputText asking) \<noteq> []"
    by (simp add: asking_def trim_def is_ws_def)
  have h2: "\<not> isLoading asking"
    by (simp add: asking_def ChatBot_mounted_def ChatBot_mount_def ChatBot_init_def)
  show ?thesis
    using h1 h2 sendMessage_appends_user_then_reply [OF h1 h2, of engine0 1 2 3 4 "\<lambda>req. reply_120_50"]
    by blast
qed

text \<open>
  Claim C5. The request of a submission carries the trimmed input as its message and, as
  its history, the messages that were in the history before this call, in order, each
  reduced to its sender and its text; the user's message appended by this call is not
  among them. With no earlier message the history sent is empty. This request is the
  only one the call issues.
\<close>

theorem request_carries_prior_history:
  assumes "trim (inputText s) \<noteq> []" and "\<not> isLoading s"
  shows "\<exists>s' req. sendMessage_begin t1 t2 s = (s', Some req)
           \<and> (\<exists>s''. sendMessage rt t1 t2 t3 t4 transport s = Inr (s'', [req]))
           \<and> req_message req = trim (inputText s)
           \<and> req_history req =
               map (\<lambda>m. \<lparr>sender = sender m, message = message m, id' = None, timestamp = None\<rparr>) (messages s)
           \<and> messages s' = messages s @ [userMessage (inputText s) t1 t2]
           \<and> length (req_history req) = length (messages s)
           \<and> (messages s = [] \<longrightarrow> req_history req = [])"
proof -
  let ?um = "userMessage (inputText s) t1 t2"
  let ?s1 = "s\<lparr>messages := messages s @ [?um], inputText := [], isLoading := True\<rparr>"
  let ?req = "apiRequest ?um (messages s)"
  have b: "sendMessage_begin t1 t2 s = (?s1, Some ?req)"
    using assms by (rule sendMessage_begin_accepts)
  obtain m where m: "sendMessage_settle rt t3 t4 (transport ?req) ?s1
      = Inr (?s1\<lparr>messages := messages ?s1 @ [m], isLoading := False\<rparr>)"
    using sendMessage_settle_appends by blast
  have whole: "\<exists>s''. sendMessage rt t1 t2 t3 t4 transport s = Inr (s'', [?req])"
    by (simp add: sendMessage_def b m bind_thrown_def)
  have "req_message ?req = trim (inputText s)"
    by (simp add: apiRequest_def userMessage_def)
  moreover have "req_history ?req =
      map (\<lambda>m. \<lparr>sender = sender m, message = message m, id' = None, timestamp = None\<rparr>) (messages s)"
    by (simp add: apiRequest_def)
  moreover have "messages s = [] \<longrightarrow> req_history ?req = []"
    by (simp add: apiRequest_def)
  ultimately show ?thesis using b whole by simp
qed

text \<open>Witness for C5: the question asked on an empty history; the request is
  \<open>{message: "What is the AAPL price?", history: []}\<close>.\<close>

theorem request_carries_prior_history_witness:
  "trim (inputText first_question) \<noteq> []
   \<and> \<not> isLoading first_question
   \<and> messages first_question = []
   \<and> (\<exists>s' s''. sendMessage_begin 1 2 first_question
          = (s', Some \<lparr>req_message = ''What is the AAPL price?'', req_history = []\<rparr>)
        \<and> sendMessage engine0 1 2 3 4 (\<lambda>req. reply_120_50) first_question
          = Inr (s'', [\<lparr>req_message = ''What is the AAPL price?'', req_history = []\<rparr>]))"
proof -
  have t: "trim (inputText first_question) = ''What is the AAPL price?''"
    by (simp add: first_question_def trim_def is_ws_def)
  have h1: "trim (inputText first_question) \<noteq> []" unfolding t by simp
  have h2: "\<not> isLoading first_question" by (simp add: first_question_def ChatBot_init_def)
  have h3: "messages first_question = []" by (simp add: first_question_def ChatBot_init_def)
  from request_carries_prior_history [OF h1 h2, of 1 2 engine0 3 4 "\<lambda>req. reply_120_50"]
  obtain s' req s'' where r: "sendMessage_begin 1 2 first_question = (s', Some req)"
      "sendMessage engine0 1 2 3 4 (\<lambda>req. reply_120_50) first_question = Inr (s'', [req])"
      "req_message req = trim (inputText first_question)"
      "messages first_question = [] \<longrightarrow> req_history req = []"
    by blast
  from r(3,4) h3 t have "req = \<lparr>req_message = ''What is the AAPL price?'', req_history = []\<rparr>"
    by simp
  with r(1,2) h1 h2 h3 show ?thesis by blast
qed

text \<open>
  Claim C6. \<open>sendMessage\<close> invoked while a request is pending, or on an input whose trim
  is empty, changes nothing: the history, the input, \<open>isLoading\<close>, the number of
  requests in flight and the list of requests issued are all as before, and the call
  issues no request.
\<close>

theorem sendMessage_guard_noop:
  assumes "isLoading (chat w) \<or> trim (inputText (chat w)) = []"
  shows "chat_step rt w (Press t1 t2) = w
         \<and> sendMessage rt t1 t2 t3 t4 transport (chat w) = Inr (chat w, [])"
  using assms by (auto simp: sendMessage_begin_def sendMessage_def)

text \<open>Witness for C6: a second press while the first request is out, and a press on
  an input of a space, a tab and a line feed.\<close>

theorem sendMessage_guard_noop_witness:
  "isLoading (chat waiting)
   \<and> trim (inputText (chat waiting)) = []
   \<and> \<not> isLoading (chat blank_input)
   \<and> trim (inputText (chat blank_input)) = []
   \<and> chat_step engine0 waiting (Press 5 6) = waiting
   \<and> sendMessage engine0 5 6 7 8 (\<lambda>req. reply_120_50) (chat waiting) = Inr (chat waiting, [])
   \<and> chat_step engine0 blank_input (Press 5 6) = blank_input
   \<and> sendMessage engine0 5 6 7 8 (\<lambda>req. reply_120_50) (chat blank_input) = Inr (chat blank_input, [])"
proof -
  have a: "isLoading (chat waiting)" "trim (inputText (chat waiting)) = []"
    by (simp_all add: chat_example_defs)
  have b: "\<not> isLoading (chat blank_input)" "trim (inputText (chat blank_input)) = []"
    by (simp_all add: chat_example_defs)
  from a(1) have h1: "isLoading (chat waiting) \<or> trim (inputText (chat waiting)) = []" ..
  from b(2) have h2: "isLoading (chat blank_input) \<or> trim (inputText (chat blank_input)) = []" ..
  show ?thesis
    using a b
      sendMessage_guard_noop [OF h1, of engine0 5 6 7 8 "\<lambda>req. reply_120_50"]
      sendMessage_guard_noop [OF h2, of engine0 5 6 7 8 "\<lambda>req. reply_120_50"]
    by blast
qed

text \<open>
  Claim C7. \<open>sendMessage\<close> never rejects, whatever the state and however the transport
  settles: the whole call and its part after the \<open>await\<close> both return a state. When the
  transport fails (a network error, a status outside 200..299, a body that is not JSON, or
  a response missing \<open>candidates[0].content.parts[0].text\<close>), the message appended has
  sender \<open>bot\<close> and a non-empty text, the reason wrapped between
  \<open>Sorry, I encountered an error: \<close> and \<open>. Please try again.\<close>
\<close>

theorem sendMessage_never_rejects:
  shows "(\<exists>s' reqs. sendMessage rt t1 t2 t3 t4 transport s = Inr (s', reqs))
       \<and> (\<exists>s'. sendMessage_settle rt t3 t4 out s = Inr s')
       \<and> (transport_failure out \<longrightarrow>
            (\<exists>m. sendMessage_settle rt t3 t4 out s
                    = Inr (s\<lparr>messages := messages s @ [m], isLoading := False\<rparr>)
                \<and> sender m = Bot
                \<and> message m \<noteq> []
                \<and> prefix ''Sorry, I encountered an error: '' (message m)
                \<and> suffix ''. Please try again.'' (message m)))"
proof (intro conjI impI)
  show "\<exists>s' reqs. sendMessage rt t1 t2 t3 t4 transport s = Inr (s', reqs)"
  proof (cases "sendMessage_begin t1 t2 s")
    case (Pair s1 r)
    show ?thesis
    proof (cases r)
      case None
      with Pair show ?thesis by (simp add: sendMessage_def)
    next
      case (Some req)
      obtain s2 where "sendMessage_settle rt t3 t4 (transport req) s1 = Inr s2"
        using sendMessage_settle_appends by blast
      with Pair Some show ?thesis by (simp add: sendMessage_def bind_thrown_def)
    qed
  qed
next
  show "\<exists>s'. sendMessage_settle rt t3 t4 out s = Inr s'"
    using sendMessage_settle_appends by blast
next
  assume "transport_failure out"
  then obtain e where e: "sendMessage_try rt t3 t4 out = Inl e"
    using sendMessage_try_failure by blast
  have "sendMessage_settle rt t3 t4 out s
          = Inr (s\<lparr>messages := messages s @ [errorMessage e t3 t4], isLoading := False\<rparr>)"
    by (simp add: sendMessage_settle_def e)
  then show "\<exists>m. sendMessage_settle rt t3 t4 out s
                    = Inr (s\<lparr>messages := messages s @ [m], isLoading := False\<rparr>)
                \<and> sender m = Bot
                \<and> message m \<noteq> []
                \<and> prefix ''Sorry, I encountered an error: '' (message m)
                \<and> suffix ''. Please try again.'' (message m)"
    using errorMessage_shape by blast
qed

text \<open>Witness for C7: a response with an empty list of candidates, arriving while the
  first request is out.\<close>

theorem sendMessage_never_rejects_witness:
  "transport_failure reply_no_candidates
   \<and> (\<exists>m. sendMessage_settle engine0 3 4 reply_no_candidates (chat waiting)
             = Inr ((chat waiting)\<lparr>messages := messages (chat waiting) @ [m], isLoading := False\<rparr>)
         \<and> sender m = Bot
         \<and> message m \<noteq> []
         \<and> prefix ''Sorry, I encountered an error: '' (message m)
         \<and> suffix ''. Please try again.'' (message m))"
proof -
  have h: "transport_failure reply_no_candidates"
    by (simp add: reply_no_candidates_def ok_def text_missing_def lookup_text_def)
  show ?thesis
    using h sendMessage_never_rejects
      [of engine0 1 2 3 4 "\<lambda>req. reply_no_candidates" "chat waiting" reply_no_candidates]
    by blast
qed

text \<open>
  Claim C9. After the first render and its effect the history is the welcome message
  alone, and its sender is \<open>bot\<close>. From then on the history only grows at its end: the
  history before any transition is a prefix of the history after it, so the history at any
  moment of a session is a prefix of the history at every later moment and always begins
  with the welcome message.
\<close>

theorem history_append_only:
  "messages (chat (chat_start now)) = [welcomeMessage now]
   \<and> sender (welcomeMessage now) = Bot
   \<and> prefix (messages ChatBot_init) (messages (ChatBot_mounted now))
   \<and> prefix (messages (chat w)) (messages (chat (chat_step rt w e)))
   \<and> prefix (messages (chat (chat_run rt (chat_start now) es)))
            (messages (chat (chat_run rt (chat_start now) (es @ es'))))
   \<and> prefix [welcomeMessage now] (messages (chat (chat_run rt (chat_start now) es)))"
proof -
  have start: "messages (chat (chat_start now)) = [welcomeMessage now]"
    by (simp add: chat_start_def ChatBot_mounted_def ChatBot_mount_def)
  have "chat_run rt (chat_start now) (es @ es') = chat_run rt (chat_run rt (chat_start now) es) es'"
    by (simp add: chat_run_def)
  then have later: "prefix (messages (chat (chat_run rt (chat_start now) es)))
            (messages (chat (chat_run rt (chat_start now) (es @ es'))))"
    by (simp add: chat_run_prefix)
  have "prefix (messages (chat (chat_start now))) (messages (chat (chat_run rt (chat_start now) es)))"
    by (rule chat_run_prefix)
  with start later show ?thesis
    by (simp add: chat_step_prefix welcomeMessage_def ChatBot_init_def)
qed

section \<open>Facts about the company view\<close>

lemmas app_example_defs =
  tsla_image_done_def goog_selected_def aapl_loaded_def details_ok_def details_500_def
  details_bad_json_def apple_def
  cache0_def app_run_def App_mount_def App_init_def COMPANIES_def loadCompanyData_begin_def
  fetchCompanyDetails_settle_def fetchCompanyImage_settle_def loadCompanyData_catch_def
  loadCompanyData_finally_def mark_joined_def join_rejected_def join_fulfilled_def
  handleCompanySelect_def ok_def Let_def template_def API_BASE_URL_def

lemma join_fulfilled_app:
  "app (join_fulfilled i w) =
     (if joined (loads w ! i) \<or> details_pending (loads w ! i) \<or> image_pending (loads w ! i)
      then app w else (app w)\<lparr>isLoading_app := False\<rparr>)"
  by (simp add: join_fulfilled_def loadCompanyData_finally_def mark_joined_def)

lemma join_rejected_app:
  "app (join_rejected i err w) =
     (if joined (loads w ! i) then app w
      else (app w)\<lparr>error := Some (case err of Error m \<Rightarrow> m | NonError \<Rightarrow> ''An error occurred''),
                    isLoading_app := False\<rparr>)"
  by (simp add: join_rejected_def loadCompanyData_finally_def loadCompanyData_catch_def
      mark_joined_def Let_def)

text \<open>
  The second scenario of the specification: AAPL, both fetches succeeding.
\<close>

lemma scenario_aapl_loaded:
  "app aapl_loaded =
     \<lparr>selectedCompany = AAPL, companyDetails = apple,
      companyImage = Some ''file:///cache/AAPL.jpg'',
      isDropdownVisible = False, isLoading_app = False, error = None\<rparr>"
  by (simp add: app_example_defs)

section \<open>Properties of the company view\<close>

text \<open>
  Claim C10. The state the view is built with already has \<open>isLoading\<close> true, no
  details, no image and no error, and its selected company is the first of \<open>COMPANIES\<close>;
  the effect after the first render starts the load of that company and leaves the state as
  it was built.
\<close>

theorem App_starts_loading:
  "app (App_mount cd) = App_init
   \<and> loads (App_mount cd) = [\<lparr>target = AAPL, details_pending = True, image_pending = True, joined = False\<rparr>]
   \<and> selectedCompany App_init = COMPANIES ! 0
   \<and> isLoading_app App_init = True
   \<and> companyDetails App_init = JNull
   \<and> companyImage App_init = None
   \<and> error App_init = None"
  by (simp add: App_mount_def App_init_def COMPANIES_def loadCompanyData_begin_def Let_def)

text \<open>
  Claim C1, as stated, fails: TSLA is selected, its image is downloaded, then its details
  endpoint answers 500. The load has failed (\<open>error\<close> is set, \<open>isLoading\<close> is false),
  and the image path is in the state.
\<close>

theorem failed_load_keeps_downloaded_image:
  "error (app (app_run cache0 (App_mount cache0)
      [Select TSLA,
       ImageSettled 1 (DownloadResolved ''file:///cache/TSLA.jpg''),
       DetailsSettled 1 (FetchResolved details_500)]))
     = Some ''Failed to fetch company details: Internal Server Error''
   \<and> isLoading_app (app (app_run cache0 (App_mount cache0)
      [Select TSLA,
       ImageSettled 1 (DownloadResolved ''file:///cache/TSLA.jpg''),
       DetailsSettled 1 (FetchResolved details_500)])) = False
   \<and> companyImage (app (app_run cache0 (App_mount cache0)
      [Select TSLA,
       ImageSettled 1 (DownloadResolved ''file:///cache/TSLA.jpg''),
       DetailsSettled 1 (FetchResolved details_500)]))
     \<noteq> None"
  by (simp add: app_example_defs)

text \<open>
  Claim C1, amended. When the first of the two fetches of a load fails, in any of the ways
  it can fail, \<open>error\<close> becomes the failure reason and \<open>isLoading\<close> becomes false,
  and nothing else in the state changes: details and image path stay as they were, so
  what the other fetch has already written stays. The details fetch fails by a response
  with a status outside 200..299, the reason then being
  \<open>Failed to fetch company details: \<close> followed by the status text, hence not empty;
  by a rejected \<open>fetch\<close>; or by a response with a status in 200..299 whose \<open>json()\<close>
  rejects. The image fetch fails by a rejected download. In the last three cases the
  reason is the message of the error thrown, or \<open>An error occurred\<close> when the value
  thrown is no \<open>Error\<close>.
\<close>

theorem failed_load_sets_error_only:
  assumes "i < length (loads w)" and "\<not> joined (loads w ! i)"
  shows "(details_pending (loads w ! i) \<and> \<not> ok r \<longrightarrow>
            app (app_step cd w (DetailsSettled i (FetchResolved r)))
              = (app w)\<lparr>error := Some (''Failed to fetch company details: '' @ statusText r),
                         isLoading_app := False\<rparr>
            \<and> error (app (app_step cd w (DetailsSettled i (FetchResolved r)))) \<noteq> Some []
            \<and> companyDetails (app (app_step cd w (DetailsSettled i (FetchResolved r))))
                = companyDetails (app w)
            \<and> companyImage (app (app_step cd w (DetailsSettled i (FetchResolved r))))
                = companyImage (app w))
       \<and> (details_pending (loads w ! i) \<longrightarrow>
            app (app_step cd w (DetailsSettled i (FetchRejected e)))
              = (app w)\<lparr>error := Some (case e of Error m \<Rightarrow> m | NonError \<Rightarrow> ''An error occurred''),
                         isLoading_app := False\<rparr>)
       \<and> (details_pending (loads w ! i) \<and> ok r' \<and> body r' = JsonRejected e \<longrightarrow>
            app (app_step cd w (DetailsSettled i (FetchResolved r')))
              = (app w)\<lparr>error := Some (case e of Error m \<Rightarrow> m | NonError \<Rightarrow> ''An error occurred''),
                         isLoading_app := False\<rparr>
            \<and> companyDetails (app (app_step cd w (DetailsSettled i (FetchResolved r'))))
                = companyDetails (app w)
            \<and> companyImage (app (app_step cd w (DetailsSettled i (FetchResolved r'))))
                = companyImage (app w))
       \<and> (image_pending (loads w ! i) \<longrightarrow>
            app (app_step cd w (ImageSettled i (DownloadRejected e)))
              = (app w)\<lparr>error := Some (case e of Error m \<Rightarrow> m | NonError \<Rightarrow> ''An error occurred''),
                         isLoading_app := False\<rparr>)"
  using assms
  by (simp add: join_rejected_app fetchCompanyDetails_settle_def fetchCompanyImage_settle_def Let_def)

text \<open>Witness for C1 amended: TSLA selected and its image downloaded; then the details
  endpoint answers 500, or answers 200 with a body that is not JSON.\<close>

theorem failed_load_sets_error_only_witness:
  "1 < length (loads tsla_image_done)
   \<and> \<not> joined (loads tsla_image_done ! 1)
   \<and> details_pending (loads tsla_image_done ! 1)
   \<and> \<not> ok details_500
   \<and> ok details_bad_json
   \<and> body details_bad_json = JsonRejected (Error ''JSON Parse error: Unexpected token'')
   \<and> companyImage (app tsla_image_done) = Some ''file:///cache/TSLA.jpg''
   \<and> app (app_step cache0 tsla_image_done (DetailsSettled 1 (FetchResolved details_500)))
       = (app tsla_image_done)\<lparr>error := Some (''Failed to fetch company details: '' @ statusText details_500),
                                isLoading_app := False\<rparr>
   \<and> companyImage (app (app_step cache0 tsla_image_done (DetailsSettled 1 (FetchResolved details_500))))
       = companyImage (app tsla_image_done)
   \<and> app (app_step cache0 tsla_image_done (DetailsSettled 1 (FetchResolved details_bad_json)))
       = (app tsla_image_done)\<lparr>error := Some ''JSON Parse error: Unexpected token'',
                                isLoading_app := False\<rparr>
   \<and> companyImage (app (app_step cache0 tsla_image_done (DetailsSettled 1 (FetchResolved details_bad_json))))
       = companyImage (app tsla_image_done)"
proof -
  have h1: "1 < length (loads tsla_image_done)" by (simp add: app_example_defs)
  have h2: "\<not> joined (loads tsla_image_done ! 1)" by (simp add: app_example_defs)
  have h3: "details_pending (loads tsla_image_done ! 1)" by (simp add: app_example_defs)
  have h4: "\<not> ok details_500" by (simp add: details_500_def ok_def)
  have h5: "companyImage (app tsla_image_done) = Some ''file:///cache/TSLA.jpg''"
    by (simp add: app_example_defs)
  have h6: "ok details_bad_json"
    "body details_bad_json = JsonRejected (Error ''JSON Parse error: Unexpected token'')"
    by (simp_all add: details_bad_json_def ok_def)
  have t: "app (app_step cache0 tsla_image_done (DetailsSettled 1 (FetchResolved details_bad_json)))
       = (app tsla_image_done)\<lparr>error := Some ''JSON Parse error: Unexpected token'',
                                isLoading_app := False\<rparr>
     \<and> companyImage (app (app_step cache0 tsla_image_done (DetailsSettled 1 (FetchResolved details_bad_json))))
       = companyImage (app tsla_image_done)"
    using h3 h6
      failed_load_sets_error_only
        [OF h1 h2, of details_500 cache0 "Error ''JSON Parse error: Unexpected token''" details_bad_json]
    by simp
  show ?thesis
    using h1 h2 h3 h4 h5 h6 t
      failed_load_sets_error_only
        [OF h1 h2, of details_500 cache0 "Error ''JSON Parse error: Unexpected token''" details_bad_json]
    by blast
qed

text \<open>
  Claim C2, as stated, fails: GOOG is selected while the load of AAPL (load 0) is still
  out, then the details of AAPL arrive. The selection is still GOOG, and the details in
  the state are those of AAPL.
\<close>

theorem superseded_details_are_applied:
  "target (loads (app_run cache0 (App_mount cache0) [Select GOOG]) ! 0) = AAPL
   \<and> selectedCompany (app (app_run cache0 (App_mount cache0)
        [Select GOOG, DetailsSettled 0 (FetchResolved (details_ok apple))])) = GOOG
   \<and> companyDetails (app (app_run cache0 (App_mount cache0)
        [Select GOOG, DetailsSettled 0 (FetchResolved (details_ok apple))])) = apple"
  by (simp add: app_example_defs)

text \<open>
  Claim C2, amended. The settling of a fetch never changes the selected company, so after
  select(A) was superseded by select(B) the selection stays B. The payload of a fetch that
  succeeds is written into the state whichever load it belongs to: the details of a
  response with a status in 200..299 and a JSON body, and the path of a finished
  download, are stored without comparing the load's company with the selected one.
\<close>

theorem late_settlement_is_applied:
  "selectedCompany (app (app_step cd w (DetailsSettled i out))) = selectedCompany (app w)
   \<and> selectedCompany (app (app_step cd w (ImageSettled i dout))) = selectedCompany (app w)
   \<and> (i < length (loads w) \<and> details_pending (loads w ! i) \<and> ok r \<and> body r = JsonResolved d
        \<longrightarrow> companyDetails (app (app_step cd w (DetailsSettled i (FetchResolved r)))) = d)
   \<and> (i < length (loads w) \<and> image_pending (loads w ! i)
        \<longrightarrow> companyImage (app (app_step cd w (ImageSettled i (DownloadResolved uri)))) = Some uri)"
  by (auto simp: join_fulfilled_app join_rejected_app fetchCompanyDetails_settle_def
      fetchCompanyImage_settle_def Let_def
      split: sum.splits fetch_outcome.splits download_outcome.splits json_result.splits if_splits)

text \<open>Witness for C2 amended: GOOG selected while load 0, of AAPL, is out; then the
  details and the image of AAPL arrive.\<close>

theorem late_settlement_is_applied_witness:
  "0 < length (loads goog_selected)
   \<and> target (loads goog_selected ! 0) = AAPL
   \<and> selectedCompany (app goog_selected) = GOOG
   \<and> details_pending (loads goog_selected ! 0)
   \<and> image_pending (loads goog_selected ! 0)
   \<and> ok (details_ok apple)
   \<and> body (details_ok apple) = JsonResolved apple
   \<and> selectedCompany (app (app_step cache0 goog_selected
         (DetailsSettled 0 (FetchResolved (details_ok apple))))) = GOOG
   \<and> companyDetails (app (app_step cache0 goog_selected
         (DetailsSettled 0 (FetchResolved (details_ok apple))))) = apple
   \<and> companyImage (app (app_step cache0 goog_selected
         (ImageSettled 0 (DownloadResolved ''file:///cache/AAPL.jpg'')))) = Some ''file:///cache/AAPL.jpg''"
proof -
  have h: "0 < length (loads goog_selected)" "target (loads goog_selected ! 0) = AAPL"
    "selectedCompany (app goog_selected) = GOOG"
    "details_pending (loads goog_selected ! 0)" "image_pending (loads goog_selected ! 0)"
    by (simp_all add: app_example_defs)
  have r: "ok (details_ok apple)" "body (details_ok apple) = JsonResolved apple"
    by (simp_all add: details_ok_def ok_def)
  show ?thesis
    using h r late_settlement_is_applied
      [of cache0 goog_selected 0 "FetchResolved (details_ok apple)"
          "DownloadResolved ''file:///cache/AAPL.jpg''" "details_ok apple" apple
          "''file:///cache/AAPL.jpg''"]
    by simp
qed

text \<open>
  Claim C3, as stated, fails: AAPL is loaded, then GOOG is selected; the details and the
  image path of AAPL are still in the state. And when AAPL, loaded and current, is
  selected again, \<open>isLoading\<close> stays false.
\<close>

theorem select_keeps_stale_data:
  "companyDetails (app (app_run cache0 (App_mount cache0)
      [DetailsSettled 0 (FetchResolved (details_ok apple)),
       ImageSettled 0 (DownloadResolved ''file:///cache/AAPL.jpg''),
       Select GOOG])) = apple
   \<and> companyImage (app (app_run cache0 (App_mount cache0)
      [DetailsSettled 0 (FetchResolved (details_ok apple)),
       ImageSettled 0 (DownloadResolved ''file:///cache/AAPL.jpg''),
       Select GOOG])) = Some ''file:///cache/AAPL.jpg''
   \<and> isLoading_app (app (app_run cache0 (App_mount cache0)
      [DetailsSettled 0 (FetchResolved (details_ok apple)),
       ImageSettled 0 (DownloadResolved ''file:///cache/AAPL.jpg''),
       Select AAPL])) = False"
  by (simp add: app_example_defs)

text \<open>
  Claim C3, amended. Selecting a company other than the current one at once makes it the
  current one, sets \<open>isLoading\<close> to true and \<open>error\<close> to \<open>null\<close> and closes the
  dropdown; details and image path are not reset, they keep the values they had.
  Selecting the current company only closes the dropdown.
\<close>

theorem select_sets_loading_keeps_data:
  "(c \<noteq> selectedCompany (app w) \<longrightarrow>
      app (app_step cd w (Select c))
        = (app w)\<lparr>selectedCompany := c, isDropdownVisible := False, isLoading_app := True, error := None\<rparr>
      \<and> companyDetails (app (app_step cd w (Select c))) = companyDetails (app w)
      \<and> companyImage (app (app_step cd w (Select c))) = companyImage (app w))
   \<and> (c = selectedCompany (app w) \<longrightarrow>
      app (app_step cd w (Select c)) = (app w)\<lparr>isDropdownVisible := False\<rparr>)"
  by (simp add: handleCompanySelect_def loadCompanyData_begin_def Let_def)

text \<open>Witness for C3 amended: with AAPL loaded, GOOG is selected, and AAPL is selected.\<close>

theorem select_sets_loading_keeps_data_witness:
  "GOOG \<noteq> selectedCompany (app aapl_loaded)
   \<and> AAPL = selectedCompany (app aapl_loaded)
   \<and> app (app_step cache0 aapl_loaded (Select GOOG))
       = \<lparr>selectedCompany = GOOG, companyDetails = apple,
          companyImage = Some ''file:///cache/AAPL.jpg'',
          isDropdownVisible = False, isLoading_app = True, error = None\<rparr>
   \<and> app (app_step cache0 aapl_loaded (Select AAPL))
       = \<lparr>selectedCompany = AAPL, companyDetails = apple,
          companyImage = Some ''file:///cache/AAPL.jpg'',
          isDropdownVisible = False, isLoading_app = False, error = None\<rparr>"
proof -
  have s: "app aapl_loaded =
     \<lparr>selectedCompany = AAPL, companyDetails = apple,
      companyImage = Some ''file:///cache/AAPL.jpg'',
      isDropdownVisible = False, isLoading_app = False, error = None\<rparr>"
    by (rule scenario_aapl_loaded)
  have h1: "GOOG \<noteq> selectedCompany (app aapl_loaded)" by (simp add: s)
  have h2: "AAPL = selectedCompany (app aapl_loaded)" by (simp add: s)
  show ?thesis
    using h1 h2
      select_sets_loading_keeps_data [of GOOG aapl_loaded cache0]
      select_sets_loading_keeps_data [of AAPL aapl_loaded cache0]
    by (simp add: s)
qed

text \<open>
  Claim C8, as stated, fails: AAPL is loaded and current, and is selected again; the
  requests issued are still only the two of the first load.
\<close>

theorem reselect_issues_no_request:
  "issued (app_run cache0 (App_mount cache0)
      [DetailsSettled 0 (FetchResolved (details_ok apple)),
       ImageSettled 0 (DownloadResolved ''file:///cache/AAPL.jpg''),
       Select AAPL])
     = [Fetch ''https://hcibackend.onrender.com/stockDetails/AAPL'',
        DownloadAsync ''https://hcibackend.onrender.com/stockGraph/AAPL'' ''file:///cache/AAPL.jpg'']"
  by (simp add: app_example_defs)

text \<open>
  Claim C8, amended. Selecting a company other than the current one starts a fresh load:
  both requests, for the details and for the image of that company, are issued again,
  whatever was loaded before. Selecting the company that is already current issues no
  request and starts no load.
\<close>

theorem select_issues_requests_on_change:
  "(c \<noteq> selectedCompany (app w) \<longrightarrow>
      issued (app_step cd w (Select c))
        = issued w @ [Fetch (API_BASE_URL @ ''/stockDetails/'' @ symbol c),
                      DownloadAsync (API_BASE_URL @ ''/stockGraph/'' @ symbol c)
                                    (template cd @ symbol c @ ''.jpg'')]
      \<and> loads (app_step cd w (Select c))
        = loads w @ [\<lparr>target = c, details_pending = True, image_pending = True, joined = False\<rparr>])
   \<and> (c = selectedCompany (app w) \<longrightarrow>
      issued (app_step cd w (Select c)) = issued w
      \<and> loads (app_step cd w (Select c)) = loads w)"
  by (simp add: handleCompanySelect_def loadCompanyData_begin_def Let_def)

text \<open>Witness for C8 amended: with AAPL loaded, GOOG is selected, and AAPL is selected.\<close>

theorem select_issues_requests_on_change_witness:
  "GOOG \<noteq> selectedCompany (app aapl_loaded)
   \<and> AAPL = selectedCompany (app aapl_loaded)
   \<and> issued (app_step cache0 aapl_loaded (Select GOOG))
       = issued aapl_loaded @ [Fetch ''https://hcibackend.onrender.com/stockDetails/GOOG'',
            DownloadAsync ''https://hcibackend.onrender.com/stockGraph/GOOG'' ''file:///cache/GOOG.jpg'']
   \<and> issued (app_step cache0 aapl_loaded (Select AAPL)) = issued aapl_loaded"
proof -
  have h1: "GOOG \<noteq> selectedCompany (app aapl_loaded)" by (simp add: scenario_aapl_loaded)
  have h2: "AAPL = selectedCompany (app aapl_loaded)" by (simp add: scenario_aapl_loaded)
  show ?thesis
    using h1 h2
      select_issues_requests_on_change [of GOOG aapl_loaded cache0]
      select_issues_requests_on_change [of AAPL aapl_loaded cache0]
    by (simp add: API_BASE_URL_def template_def cache0_def)
qed

end
